theory Spec2Isabelle
  imports Main
begin

section \<open>JavaScript values\<close>

text \<open>
  The webhook service is untyped JavaScript, so its arguments are modelled as JavaScript
  values. Numbers are the integer-valued ones plus \<open>NaN\<close>; objects are the data objects
  that JSON produces, an association list from property names to values in insertion
  order. Strings are lists of 8-bit characters, read as code units below 256.
\<close>

datatype jsval =
    JUndefined
  | JNull
  | JBool bool
  | JNum int
  | JNaN
  | JStr string
  | JArr "jsval list"
  | JObj "(string \<times> jsval) list"

text \<open>A thrown value: the \<open>name\<close> and the \<open>message\<close> of an error object.\<close>

datatype js_error = JsError (err_name: string) (err_message: string)

text \<open>ToBoolean: what \<open>!v\<close>, \<open>v || w\<close> and \<open>v && w\<close> test.\<close>

fun truthy :: "jsval \<Rightarrow> bool" where
  "truthy JUndefined = False"
| "truthy JNull = False"
| "truthy (JBool b) = b"
| "truthy (JNum n) = (n \<noteq> 0)"
| "truthy JNaN = False"
| "truthy (JStr s) = (s \<noteq> [])"
| "truthy (JArr xs) = True"
| "truthy (JObj fs) = True"

text \<open>\<open>a || b\<close>: the left operand when it is truthy, the right one otherwise.\<close>

definition js_or :: "jsval \<Rightarrow> jsval \<Rightarrow> jsval" where
  "js_or a b = (if truthy a then a else b)"

text \<open>A parameter declared \<open>p = d\<close> takes the default when the argument is \<open>undefined\<close>.\<close>

definition dflt :: "jsval \<Rightarrow> jsval \<Rightarrow> jsval" where
  "dflt d v = (if v = JUndefined then d else v)"

text \<open>
  \<open>v.k\<close> on a value that is neither \<open>null\<close> nor \<open>undefined\<close>: the property of a data
  object, \<open>undefined\<close> when the object lacks it or when the receiver is a primitive or
  an array (none of the names this module reads is defined on a prototype).
\<close>

fun jsprop :: "jsval \<Rightarrow> string \<Rightarrow> jsval" where
  "jsprop (JObj fs) k = (case map_of fs k of Some v \<Rightarrow> v | None \<Rightarrow> JUndefined)"
| "jsprop v k = JUndefined"

definition TypeError :: "string \<Rightarrow> js_error" where
  "TypeError msg = JsError ''TypeError'' msg"

text \<open>\<open>v.k\<close> in general: reading a property of \<open>null\<close> or \<open>undefined\<close> throws a TypeError.\<close>

definition get_prop :: "jsval \<Rightarrow> string \<Rightarrow> js_error + jsval" where
  "get_prop v k =
     (if v = JNull \<or> v = JUndefined
      then Inl (TypeError ''Cannot read properties of null or undefined'')
      else Inr (jsprop v k))"

subsection \<open>Strings\<close>

text \<open>
  \<open>String.prototype.trim\<close> removes white space and line terminators from both ends.
  Below code unit 256 these are TAB, LF, VT, FF, CR, SPACE and NO-BREAK SPACE.
\<close>

definition is_space :: "char \<Rightarrow> bool" where
  "is_space c = (c \<in> {CHR 0x09, CHR 0x0A, CHR 0x0B, CHR 0x0C, CHR 0x0D, CHR 0x20, CHR 0xA0})"

definition trim :: "string \<Rightarrow> string" where
  "trim s = rev (dropWhile is_space (rev (dropWhile is_space s)))"

text \<open>\<open>s.includes(sub)\<close>: \<open>sub\<close> occurs in \<open>s\<close> as a contiguous run, case-sensitively.\<close>

fun str_includes :: "string \<Rightarrow> string \<Rightarrow> bool" where
  "str_includes [] sub = (sub = [])"
| "str_includes (c # cs) sub = (take (length sub) (c # cs) = sub \<or> str_includes cs sub)"

text \<open>A number in a template literal: its decimal digits.\<close>

definition digit :: "nat \<Rightarrow> char" where
  "digit d = ''0123456789'' ! d"

fun show_nat :: "nat \<Rightarrow> string" where
  "show_nat n = (if n < 10 then [digit n] else show_nat (n div 10) @ [digit (n mod 10)])"

declare show_nat.simps [simp del]

section \<open>The errors the service throws\<close>

text \<open>
  Every \<open>throw new Error(msg)\<close> of the service has the name \<open>Error\<close>; the kinds of failure
  differ by message only.
\<close>

definition InvalidInput :: js_error where
  "InvalidInput = JsError ''Error'' ''Invalid shot data: shot is required''"

definition ConfigurationError :: js_error where
  "ConfigurationError = JsError ''Error'' ''Webhook URL is not configured''"

definition AuthenticationError :: js_error where
  "AuthenticationError =
     JsError ''Error'' ''Authentication failed - please check your auth token''"

definition ValidationError :: js_error where
  "ValidationError =
     JsError ''Error''
       ''Data validation failed - the webhook server rejected the data format''"

definition HttpError :: "nat \<Rightarrow> string \<Rightarrow> js_error" where
  "HttpError code errorText = JsError ''Error'' (''HTTP '' @ show_nat code @ '': '' @ errorText)"

definition NetworkError :: js_error where
  "NetworkError = JsError ''Error'' ''Network error: Unable to connect to webhook URL''"

section \<open>formatWebhookPayload\<close>

definition formatWebhookPayload :: "jsval \<Rightarrow> jsval \<Rightarrow> js_error + jsval" where
  "formatWebhookPayload shot notes_arg =
     (let notes = dflt JNull notes_arg in
      if \<not> truthy shot then Inl InvalidInput
      else Inr (JObj
        [(''id'', jsprop shot ''id''),
         (''timestamp'', jsprop shot ''timestamp''),
         (''profile'', jsprop shot ''profile''),
         (''profileId'', jsprop shot ''profileId''),
         (''duration'', jsprop shot ''duration''),
         (''volume'', jsprop shot ''volume''),
         (''incomplete'', js_or (jsprop shot ''incomplete'') (JBool False)),
         (''samples'', js_or (jsprop shot ''samples'') (JArr [])),
         (''notes'', js_or (js_or notes (jsprop shot ''notes'')) JNull)]))"

section \<open>The platform: fetch and URL\<close>

text \<open>
  \<open>fetch\<close> and \<open>URL\<close> belong to the browser, not to the service, so they are parameters
  of the model. A request is what the service hands to \<open>fetch\<close>; the body is the value
  given to \<open>JSON.stringify\<close>. A response carries what the service reads from it: the
  status, the result of \<open>headers.get('content-type')\<close> (\<open>None\<close> for \<open>null\<close>), and the
  outcomes of the promises \<open>text()\<close> and \<open>json()\<close>, each a value or a rejection.
\<close>

record request =
  req_url :: string
  req_method :: string
  req_headers :: "(string \<times> string) list"
  req_body :: "jsval option"

record response =
  resp_status :: nat
  resp_content_type :: "string option"
  resp_text :: "js_error + string"
  resp_json :: "js_error + jsval"

type_synonym fetch_fn = "request \<Rightarrow> js_error + response"

text \<open>\<open>response.ok\<close>: by the Fetch standard, the status is in the range 200 to 299.\<close>

definition ok :: "response \<Rightarrow> bool" where
  "ok response = (200 \<le> resp_status response \<and> resp_status response \<le> 299)"

text \<open>Of a parsed \<open>URL\<close> object the service reads the \<open>protocol\<close> only.\<close>

record url =
  protocol :: string

type_synonym url_ctor = "string \<Rightarrow> js_error + url"

section \<open>getWebhookSettings\<close>

text \<open>
  Functions that call \<open>fetch\<close> return the requests they issued, in order, beside their
  result. \<open>getWebhookSettings\<close> catches whatever its \<open>try\<close> block throws (a rejected
  \<open>fetch\<close>, a rejected \<open>json()\<close>, a property read on \<open>null\<close>) and then returns the
  empty settings.
\<close>

definition settings_request :: request where
  "settings_request =
     \<lparr>req_url = ''/api/settings'', req_method = ''GET'', req_headers = [], req_body = None\<rparr>"

definition empty_settings :: jsval where
  "empty_settings = JObj [(''url'', JStr ''''), (''authToken'', JStr '''')]"

definition getWebhookSettings :: "fetch_fn \<Rightarrow> request list \<times> jsval" where
  "getWebhookSettings fetch =
     ([settings_request],
      case fetch settings_request of
        Inl error \<Rightarrow> empty_settings
      | Inr response \<Rightarrow>
          (case resp_json response of
             Inl error \<Rightarrow> empty_settings
           | Inr settings \<Rightarrow>
               (case get_prop settings ''webhookUrl'' of
                  Inl error \<Rightarrow> empty_settings
                | Inr webhookUrl \<Rightarrow>
                    (case get_prop settings ''webhookAuthToken'' of
                       Inl error \<Rightarrow> empty_settings
                     | Inr webhookAuthToken \<Rightarrow>
                         JObj [(''url'', js_or webhookUrl (JStr '''')),
                               (''authToken'', js_or webhookAuthToken (JStr ''''))]))))"

section \<open>sendWebhook\<close>

text \<open>
  Lines 64 to 71: the overrides are used as they are when both are truthy; otherwise
  the settings are fetched and fill in whichever override is falsy. The result is the
  requests issued, the resolved \<open>url\<close> and the resolved \<open>token\<close>.
\<close>

definition resolveSettings :: "fetch_fn \<Rightarrow> jsval \<Rightarrow> jsval \<Rightarrow> request list \<times> jsval \<times> jsval" where
  "resolveSettings fetch webhookUrl authToken =
     (if \<not> truthy webhookUrl \<or> \<not> truthy authToken
      then (let (reqs, settings) = getWebhookSettings fetch
            in (reqs, js_or webhookUrl (jsprop settings ''url''),
                      js_or authToken (jsprop settings ''authToken'')))
      else ([], webhookUrl, authToken))"

text \<open>
  Lines 74 to 76, \<open>if (!url || url.trim() === '') throw ...\<close>, by the kind of value:
  a string is trimmed and compared; another falsy value is unconfigured; a truthy value
  that is not a string has no \<open>trim\<close> method, and calling it throws a TypeError.
\<close>

fun checkConfigured :: "jsval \<Rightarrow> js_error + string" where
  "checkConfigured (JStr u) =
     (if u = [] \<or> trim u = [] then Inl ConfigurationError else Inr u)"
| "checkConfigured v =
     (if \<not> truthy v then Inl ConfigurationError
      else Inl (TypeError ''url.trim is not a function''))"

text \<open>
  Lines 80 to 89: the three fixed headers, then \<open>Authorization\<close> when
  \<open>token && token.trim() !== ''\<close>; the template literal inserts the token as it is.
\<close>

definition base_headers :: "(string \<times> string) list" where
  "base_headers =
     [(''Content-Type'', ''application/json''),
      (''Accept'', ''application/json''),
      (''User-Agent'', ''GaggiMate-WebUI/1.0'')]"

fun buildHeaders :: "jsval \<Rightarrow> js_error + (string \<times> string) list" where
  "buildHeaders (JStr t) =
     Inr (if t \<noteq> [] \<and> trim t \<noteq> []
          then base_headers @ [(''Authorization'', ''Bearer '' @ t)]
          else base_headers)"
| "buildHeaders v =
     (if \<not> truthy v then Inr base_headers
      else Inl (TypeError ''token.trim is not a function''))"

text \<open>
  Line 116, \<open>contentType && contentType.includes('application/json')\<close>, on the result of
  \<open>headers.get('content-type')\<close>: \<open>null\<close> and the empty string are falsy.
\<close>

definition is_json :: "string option \<Rightarrow> bool" where
  "is_json contentType =
     (case contentType of
        None \<Rightarrow> False
      | Some ct \<Rightarrow> ct \<noteq> [] \<and> str_includes ct ''application/json'')"

definition success_result :: "nat \<Rightarrow> jsval" where
  "success_result code = JObj [(''success'', JBool True), (''status'', JNum (int code))]"

text \<open>Lines 98 to 120: what the \<open>try\<close> block does with the response of \<open>fetch\<close>.\<close>

definition handleResponse :: "response \<Rightarrow> js_error + jsval" where
  "handleResponse response =
     (if \<not> ok response then
        (case resp_text response of
           Inl rejected \<Rightarrow> Inl rejected
         | Inr errorText \<Rightarrow>
             if resp_status response = 401 \<or> resp_status response = 403
             then Inl AuthenticationError
             else if resp_status response = 422
             then Inl ValidationError
             else Inl (HttpError (resp_status response) errorText))
      else if is_json (resp_content_type response) then resp_json response
      else Inr (success_result (resp_status response)))"

text \<open>Lines 121 to 126: the \<open>catch\<close> around the request and the handling of its response.\<close>

definition catchFetchError :: "js_error + jsval \<Rightarrow> js_error + jsval" where
  "catchFetchError outcome =
     (case outcome of
        Inl fetchError \<Rightarrow>
          if err_name fetchError = ''TypeError'' then Inl NetworkError else Inl fetchError
      | Inr v \<Rightarrow> Inr v)"

definition webhook_request :: "string \<Rightarrow> (string \<times> string) list \<Rightarrow> jsval \<Rightarrow> request" where
  "webhook_request u headers payload =
     \<lparr>req_url = u, req_method = ''POST'', req_headers = headers, req_body = Some payload\<rparr>"

definition sendWebhook ::
  "fetch_fn \<Rightarrow> jsval \<Rightarrow> jsval \<Rightarrow> jsval \<Rightarrow> jsval \<Rightarrow> request list \<times> (js_error + jsval)" where
  "sendWebhook fetch shot notes_arg webhookUrl_arg authToken_arg =
     (let notes = dflt JNull notes_arg;
          webhookUrl = dflt JNull webhookUrl_arg;
          authToken = dflt JNull authToken_arg;
          (reqs, url, token) = resolveSettings fetch webhookUrl authToken
      in case checkConfigured url of
           Inl e \<Rightarrow> (reqs, Inl e)
         | Inr u \<Rightarrow>
             (case formatWebhookPayload shot notes of
                Inl e \<Rightarrow> (reqs, Inl e)
              | Inr payload \<Rightarrow>
                  (case buildHeaders token of
                     Inl e \<Rightarrow> (reqs, Inl e)
                   | Inr headers \<Rightarrow>
                       (let req = webhook_request u headers payload
                        in (reqs @ [req],
                            catchFetchError
                              (case fetch req of
                                 Inl rejected \<Rightarrow> Inl rejected
                               | Inr response \<Rightarrow> handleResponse response))))))"

section \<open>validateWebhookUrl\<close>

text \<open>
  Lines 134 to 145. The test of line 135 is the one of line 74; \<open>new URL(url)\<close> is the
  platform's parser, which throws on a string it cannot parse.
\<close>

fun validateWebhookUrl :: "url_ctor \<Rightarrow> jsval \<Rightarrow> js_error + bool" where
  "validateWebhookUrl URL (JStr u) =
     (if u = [] \<or> trim u = [] then Inr False
      else (case URL u of
              Inl e \<Rightarrow> Inr False
            | Inr parsed \<Rightarrow> Inr (protocol parsed = ''http:'' \<or> protocol parsed = ''https:'')))"
| "validateWebhookUrl URL v =
     (if \<not> truthy v then Inr False
      else Inl (TypeError ''url.trim is not a function''))"

section \<open>Test doubles\<close>

text \<open>
  Concrete platforms and inputs on which the theorems below are run: a network that is
  down, a mocked endpoint that answers every request with one response, and a shot.
\<close>

definition offline :: fetch_fn where
  "offline req = Inl (TypeError ''Failed to fetch'')"

definition endpoint :: "response \<Rightarrow> fetch_fn" where
  "endpoint response req = Inr response"

definition reply :: "nat \<Rightarrow> string option \<Rightarrow> string \<Rightarrow> js_error + jsval \<Rightarrow> response" where
  "reply code contentType body parsed =
     \<lparr>resp_status = code, resp_content_type = contentType,
      resp_text = Inr body, resp_json = parsed\<rparr>"

text \<open>What \<open>json()\<close> rejects with when the body is not JSON.\<close>

definition SyntaxError :: js_error where
  "SyntaxError = JsError ''SyntaxError'' ''Unexpected token in JSON''"


definition settings_response :: response where
  "settings_response =
     reply 200 (Some ''application/json'') []
       (Inr (JObj [(''webhookUrl'', JStr ''https://example.com/hook''),
                   (''webhookAuthToken'', JStr ''secret'')]))"

definition hook :: string where
  "hook = ''https://example.com/hook''"

definition shot7 :: jsval where
  "shot7 = JObj [(''id'', JNum 7), (''notes'', JStr ''old'')]"

definition payload7 :: jsval where
  "payload7 =
     JObj [(''id'', JNum 7),
           (''timestamp'', JUndefined),
           (''profile'', JUndefined),
           (''profileId'', JUndefined),
           (''duration'', JUndefined),
           (''volume'', JUndefined),
           (''incomplete'', JBool False),
           (''samples'', JArr []),
           (''notes'', JStr ''old'')]"

definition request7 :: "string \<Rightarrow> (string \<times> string) list \<Rightarrow> request" where
  "request7 u extra = webhook_request u (base_headers @ extra) payload7"

text \<open>
  A stand-in for the platform's \<open>URL\<close> constructor that knows two strings, with the
  protocols the URL standard gives them, and rejects every other string.
\<close>

definition mock_URL :: url_ctor where
  "mock_URL s =
     (if s = ''ftp://x'' then Inr \<lparr>protocol = ''ftp:''\<rparr>
      else if s = ''https://example.com/hook'' then Inr \<lparr>protocol = ''https:''\<rparr>
      else Inl (TypeError ''Invalid URL''))"

section \<open>Auxiliary facts\<close>

subsection \<open>Strings, the URL test and the headers\<close>

lemma trim_Nil: "trim [] = []"
  by (simp add: trim_def)

lemma checkConfigured_Inr:
  "checkConfigured url = Inr u \<longleftrightarrow> url = JStr u \<and> trim u \<noteq> []"
  by (cases url) (auto simp add: trim_Nil)

lemma checkConfigured_string: "trim u \<noteq> [] \<Longrightarrow> checkConfigured (JStr u) = Inr u"
  by (auto simp add: trim_Nil)

lemma buildHeaders_string:
  "trim t \<noteq> [] \<Longrightarrow>
   buildHeaders (JStr t) = Inr (base_headers @ [(''Authorization'', ''Bearer '' @ t)])"
  by (auto simp add: trim_Nil)

lemma buildHeaders_blank: "trim t = [] \<Longrightarrow> buildHeaders (JStr t) = Inr base_headers"
  by simp

lemma buildHeaders_total:
  "(\<exists>t. token = JStr t) \<or> \<not> truthy token \<Longrightarrow> \<exists>headers. buildHeaders token = Inr headers"
  by (cases token) auto

lemma buildHeaders_lookup:
  assumes "buildHeaders token = Inr headers"
  shows "map_of headers ''Content-Type'' = Some ''application/json'' \<and>
         map_of headers ''Accept'' = Some ''application/json'' \<and>
         map_of headers ''User-Agent'' = Some ''GaggiMate-WebUI/1.0'' \<and>
         map_of headers ''Authorization'' =
           (case token of
              JStr t \<Rightarrow> if trim t \<noteq> [] then Some (''Bearer '' @ t) else None
            | _ \<Rightarrow> None)"
proof -
  from assms consider
    (auth) t where "token = JStr t" "trim t \<noteq> []"
      "headers = base_headers @ [(''Authorization'', ''Bearer '' @ t)]"
    | (blank) t where "token = JStr t" "trim t = []" "headers = base_headers"
    | (falsy) "\<not> truthy token" "\<forall>t. token \<noteq> JStr t" "headers = base_headers"
    by (cases token) (auto simp add: trim_Nil split: if_splits)
  then show ?thesis
  proof cases
    case auth
    then show ?thesis by (simp add: base_headers_def)
  next
    case blank
    then show ?thesis by (simp add: base_headers_def)
  next
    case falsy
    then show ?thesis
      by (cases token) (simp_all add: base_headers_def)
  qed
qed





subsection \<open>The settings\<close>

lemma resolveSettings_reqs:
  "fst (resolveSettings fetch w a) = [] \<or> fst (resolveSettings fetch w a) = [settings_request]"
  by (simp add: resolveSettings_def getWebhookSettings_def)

lemma getWebhookSettings_fallback:
  assumes "(\<exists>e. fetch settings_request = Inl e) \<or>
           (\<exists>response e. fetch settings_request = Inr response \<and> resp_json response = Inl e)"
  shows "getWebhookSettings fetch = ([settings_request], empty_settings)"
  using assms by (auto simp add: getWebhookSettings_def)

lemma getWebhookSettings_object:
  assumes "fetch settings_request = Inr response" "resp_json response = Inr (JObj settings)"
  shows "snd (getWebhookSettings fetch) =
           JObj [(''url'', js_or (jsprop (JObj settings) ''webhookUrl'') (JStr '''')),
                 (''authToken'', js_or (jsprop (JObj settings) ''webhookAuthToken'') (JStr ''''))]"
  using assms by (simp add: getWebhookSettings_def get_prop_def)

subsection \<open>The response and the catch\<close>

lemma catchFetchError_named:
  "err_name e = ''TypeError'' \<Longrightarrow> catchFetchError (Inl e) = Inl NetworkError"
  by (simp add: catchFetchError_def)

lemma catchFetchError_Error:
  "err_name e = ''Error'' \<Longrightarrow> catchFetchError (Inl e) = Inl e"
  by (simp add: catchFetchError_def)

lemma catchFetchError_Inr: "catchFetchError (Inr v) = Inr v"
  by (simp add: catchFetchError_def)

lemma error_names:
  "err_name AuthenticationError = ''Error''"
  "err_name ValidationError = ''Error''"
  "err_name (HttpError code body) = ''Error''"
  by (simp_all add: AuthenticationError_def ValidationError_def HttpError_def)

lemma NetworkError_distinct:
  "AuthenticationError \<noteq> NetworkError"
  "ValidationError \<noteq> NetworkError"
  "HttpError code body \<noteq> NetworkError"
  by (simp_all add: AuthenticationError_def ValidationError_def HttpError_def NetworkError_def)

lemma handleResponse_not_ok:
  assumes "\<not> ok response" "resp_text response = Inr body"
  shows "handleResponse response =
           Inl (if resp_status response = 401 \<or> resp_status response = 403
                then AuthenticationError
                else if resp_status response = 422 then ValidationError
                else HttpError (resp_status response) body)"
  using assms by (simp add: handleResponse_def)

lemma handleResponse_ok:
  assumes "ok response"
  shows "handleResponse response =
           (if is_json (resp_content_type response) then resp_json response
            else Inr (success_result (resp_status response)))"
  using assms by (simp add: handleResponse_def)

subsection \<open>The shape of a send\<close>

text \<open>
  Once the settings are resolved, a send either stops with an error, having issued at most
  the settings request, or issues one POST and returns what the catch makes of its outcome.
\<close>

lemma sendWebhook_resolved:
  assumes "resolveSettings fetch (dflt JNull w) (dflt JNull a) = (reqs, url, token)"
  shows "sendWebhook fetch shot n w a =
     (case checkConfigured url of
        Inl e \<Rightarrow> (reqs, Inl e)
      | Inr u \<Rightarrow>
          (case formatWebhookPayload shot (dflt JNull n) of
             Inl e \<Rightarrow> (reqs, Inl e)
           | Inr payload \<Rightarrow>
               (case buildHeaders token of
                  Inl e \<Rightarrow> (reqs, Inl e)
                | Inr headers \<Rightarrow>
                    (reqs @ [webhook_request u headers payload],
                     catchFetchError
                       (case fetch (webhook_request u headers payload) of
                          Inl rejected \<Rightarrow> Inl rejected
                        | Inr response \<Rightarrow> handleResponse response)))))"
  using assms by (simp add: sendWebhook_def Let_def split: sum.splits)

lemma not_post_settings:
  assumes "reqs = [] \<or> reqs = [settings_request]" "reqs = reqs' @ [req]"
  shows "req_method req \<noteq> ''POST''"
  using assms by (auto simp add: settings_request_def)

lemma sendWebhook_sent:
  assumes res: "resolveSettings fetch (dflt JNull w) (dflt JNull a) = (reqs, url, token)"
    and tr: "fst (sendWebhook fetch shot n w a) = reqs' @ [req]"
    and post: "req_method req = ''POST''"
  shows "\<exists>u headers payload.
           url = JStr u \<and> trim u \<noteq> [] \<and>
           formatWebhookPayload shot (dflt JNull n) = Inr payload \<and>
           buildHeaders token = Inr headers \<and>
           req = webhook_request u headers payload \<and> reqs' = reqs \<and>
           snd (sendWebhook fetch shot n w a) =
             catchFetchError
               (case fetch req of
                  Inl rejected \<Rightarrow> Inl rejected
                | Inr response \<Rightarrow> handleResponse response)"
proof -
  have rq: "reqs = [] \<or> reqs = [settings_request]"
    using resolveSettings_reqs [of fetch "dflt JNull w" "dflt JNull a"] res by simp
  note unf = sendWebhook_resolved [OF res, of shot n]
  show ?thesis
  proof (cases "checkConfigured url")
    case (Inl e)
    with unf tr have "reqs = reqs' @ [req]" by simp
    with rq post not_post_settings show ?thesis by blast
  next
    case u: (Inr u)
    show ?thesis
    proof (cases "formatWebhookPayload shot (dflt JNull n)")
      case (Inl e)
      with unf u tr have "reqs = reqs' @ [req]" by simp
      with rq post not_post_settings show ?thesis by blast
    next
      case p: (Inr payload)
      show ?thesis
      proof (cases "buildHeaders token")
        case (Inl e)
        with unf u p tr have "reqs = reqs' @ [req]" by simp
        with rq post not_post_settings show ?thesis by blast
      next
        case h: (Inr headers)
        from unf u p h tr have "reqs @ [webhook_request u headers payload] = reqs' @ [req]"
          by simp
        then have eq: "reqs' = reqs" "req = webhook_request u headers payload" by simp_all
        from u have "url = JStr u" "trim u \<noteq> []" by (simp_all add: checkConfigured_Inr)
        with unf u p h eq show ?thesis by simp
      qed
    qed
  qed
qed

subsection \<open>The test doubles\<close>

lemma formatWebhookPayload_shot7:
  "formatWebhookPayload shot7 JNull = Inr payload7"
  by (simp add: formatWebhookPayload_def shot7_def payload7_def Let_def dflt_def js_or_def)

lemma trim_hook: "trim hook \<noteq> []"
  by (simp add: hook_def trim_def is_space_def)

lemma resolve_both:
  "resolveSettings fetch (dflt JNull (JStr hook)) (dflt JNull (JStr ''tok'')) =
     ([], JStr hook, JStr ''tok'')"
  by (simp add: resolveSettings_def dflt_def hook_def)

lemma trim_tok: "trim ''tok'' \<noteq> []"
  by (simp add: trim_def is_space_def)

lemma sendWebhook_shot7:
  "sendWebhook fetch shot7 JNull (JStr hook) (JStr ''tok'') =
     ([request7 hook [(''Authorization'', ''Bearer tok'')]],
      catchFetchError
        (case fetch (request7 hook [(''Authorization'', ''Bearer tok'')]) of
           Inl rejected \<Rightarrow> Inl rejected
         | Inr response \<Rightarrow> handleResponse response))"
  by (simp add: sendWebhook_resolved [OF resolve_both] formatWebhookPayload_shot7 dflt_def
      request7_def checkConfigured_string [OF trim_hook] buildHeaders_string [OF trim_tok]
      del: checkConfigured.simps buildHeaders.simps)

lemma request7_post: "req_method (request7 u extra) = ''POST''"
  by (simp add: request7_def webhook_request_def)

section \<open>Building the payload\<close>

text \<open>
  C1, as stated, fails: the override is chosen by \<open>notes || shot.notes || null\<close>, which
  tests truthiness. An empty string is provided and is not \<open>null\<close>, yet the payload
  carries the notes of the shot, \<open>old\<close>, and not the override.
\<close>

theorem formatWebhookPayload_empty_notes_override:
  "formatWebhookPayload (JObj [(''id'', JNum 7), (''notes'', JStr ''old'')]) (JStr '''') =
     Inr (JObj
       [(''id'', JNum 7),
        (''timestamp'', JUndefined),
        (''profile'', JUndefined),
        (''profileId'', JUndefined),
        (''duration'', JUndefined),
        (''volume'', JUndefined),
        (''incomplete'', JBool False),
        (''samples'', JArr []),
        (''notes'', JStr ''old'')]) \<and>
   jsprop
     (projr (formatWebhookPayload (JObj [(''id'', JNum 7), (''notes'', JStr ''old'')])
        (JStr '''')))
     ''notes'' \<noteq> JStr ''''"
  by (simp add: formatWebhookPayload_def Let_def dflt_def js_or_def)

text \<open>
  C1, amended: for every truthy shot (every object is one) the payload is built, and its
  \<open>notes\<close> field is the override when the override is truthy (every object, every
  non-empty string); when the override is falsy (absent, \<open>null\<close>, the empty string, 0,
  \<open>NaN\<close>, \<open>false\<close>) it is the notes of the shot if those are truthy; otherwise it is
  \<open>null\<close>.
\<close>

theorem formatWebhookPayload_notes:
  assumes "truthy shot"
  shows "\<exists>payload. formatWebhookPayload shot n = Inr payload \<and>
           jsprop payload ''notes'' =
             (if truthy n then n
              else if truthy (jsprop shot ''notes'') then jsprop shot ''notes''
              else JNull)"
  using assms by (simp add: formatWebhookPayload_def Let_def dflt_def js_or_def)

text \<open>The amended C1 at a shot with notes and an object as override.\<close>

theorem formatWebhookPayload_notes_witness:
  "truthy (JObj [(''id'', JNum 7), (''notes'', JStr ''old'')]) \<and>
   (\<exists>payload.
      formatWebhookPayload (JObj [(''id'', JNum 7), (''notes'', JStr ''old'')])
        (JObj [(''rating'', JNum 5)]) = Inr payload \<and>
      jsprop payload ''notes'' = JObj [(''rating'', JNum 5)])"
  using formatWebhookPayload_notes
    [of "JObj [(''id'', JNum 7), (''notes'', JStr ''old'')]" "JObj [(''rating'', JNum 5)]"]
  by simp

text \<open>
  C2: building the payload fails with InvalidInput when the shot is \<open>null\<close> or absent
  (\<open>undefined\<close>); for every shot object, whatever fields it has or lacks, it returns a
  payload; and the only failure there is, is InvalidInput on a falsy shot.
\<close>

theorem formatWebhookPayload_throws:
  "formatWebhookPayload JNull n = Inl InvalidInput \<and>
   formatWebhookPayload JUndefined n = Inl InvalidInput \<and>
   (\<exists>payload. formatWebhookPayload (JObj fs) n = Inr payload) \<and>
   ((formatWebhookPayload shot n = Inl e) = (\<not> truthy shot \<and> e = InvalidInput))"
  by (auto simp add: formatWebhookPayload_def Let_def)

section \<open>Resolving the settings\<close>

text \<open>
  C5: when both overrides are supplied (truthy), they are used as they are and no request
  is made. Otherwise the settings are fetched, once, and each resolved field is the
  override if that is supplied and the fetched field if not, so a supplied override always
  wins. The fetched fields are the \<open>webhookUrl\<close> and \<open>webhookAuthToken\<close> of the settings
  object, the empty string in place of a missing one. When the settings request is
  rejected, or its body does not parse, \<open>getWebhookSettings\<close> returns the empty
  settings and no error.
\<close>

theorem resolveSettings_overrides:
  "(truthy webhookUrl \<and> truthy authToken \<longrightarrow>
      resolveSettings fetch webhookUrl authToken = ([], webhookUrl, authToken)) \<and>
   (\<not> (truthy webhookUrl \<and> truthy authToken) \<longrightarrow>
      resolveSettings fetch webhookUrl authToken =
        ([settings_request],
         (if truthy webhookUrl then webhookUrl
          else jsprop (snd (getWebhookSettings fetch)) ''url''),
         (if truthy authToken then authToken
          else jsprop (snd (getWebhookSettings fetch)) ''authToken''))) \<and>
   (\<forall>response settings.
      fetch settings_request = Inr response \<and> resp_json response = Inr (JObj settings) \<longrightarrow>
      snd (getWebhookSettings fetch) =
        JObj [(''url'', js_or (jsprop (JObj settings) ''webhookUrl'') (JStr '''')),
              (''authToken'', js_or (jsprop (JObj settings) ''webhookAuthToken'') (JStr ''''))]) \<and>
   ((\<exists>e. fetch settings_request = Inl e) \<or>
    (\<exists>response e. fetch settings_request = Inr response \<and> resp_json response = Inl e) \<longrightarrow>
      getWebhookSettings fetch = ([settings_request], empty_settings))"
proof (intro conjI impI allI)
  assume "truthy webhookUrl \<and> truthy authToken"
  then show "resolveSettings fetch webhookUrl authToken = ([], webhookUrl, authToken)"
    by (simp add: resolveSettings_def)
next
  assume "\<not> (truthy webhookUrl \<and> truthy authToken)"
  then show "resolveSettings fetch webhookUrl authToken =
        ([settings_request],
         (if truthy webhookUrl then webhookUrl
          else jsprop (snd (getWebhookSettings fetch)) ''url''),
         (if truthy authToken then authToken
          else jsprop (snd (getWebhookSettings fetch)) ''authToken''))"
    by (auto simp add: resolveSettings_def js_or_def getWebhookSettings_def)
next
  fix response settings
  assume "fetch settings_request = Inr response \<and> resp_json response = Inr (JObj settings)"
  then show "snd (getWebhookSettings fetch) =
        JObj [(''url'', js_or (jsprop (JObj settings) ''webhookUrl'') (JStr '''')),
              (''authToken'', js_or (jsprop (JObj settings) ''webhookAuthToken'') (JStr ''''))]"
    using getWebhookSettings_object by blast
next
  assume "(\<exists>e. fetch settings_request = Inl e) \<or>
    (\<exists>response e. fetch settings_request = Inr response \<and> resp_json response = Inl e)"
  then show "getWebhookSettings fetch = ([settings_request], empty_settings)"
    by (rule getWebhookSettings_fallback)
qed

text \<open>
  C5 run: both overrides supplied with the network down; the token supplied and the URL
  fetched; both fetched; the URL supplied and the settings unreachable.
\<close>

theorem resolveSettings_overrides_witness:
  "resolveSettings offline (JStr ''http://a.example/x'') (JStr ''tok'') =
     ([], JStr ''http://a.example/x'', JStr ''tok'') \<and>
   resolveSettings (endpoint settings_response) JNull (JStr ''tok'') =
     ([settings_request], JStr ''https://example.com/hook'', JStr ''tok'') \<and>
   resolveSettings (endpoint settings_response) JNull JNull =
     ([settings_request], JStr ''https://example.com/hook'', JStr ''secret'') \<and>
   resolveSettings offline (JStr ''http://a.example/x'') JNull =
     ([settings_request], JStr ''http://a.example/x'', JStr '''') \<and>
   getWebhookSettings offline = ([settings_request], empty_settings)"
proof -
  have up: "endpoint settings_response settings_request = Inr settings_response \<and>
        resp_json settings_response =
          Inr (JObj [(''webhookUrl'', JStr ''https://example.com/hook''),
                     (''webhookAuthToken'', JStr ''secret'')])"
    by (simp add: endpoint_def settings_response_def reply_def)
  have down: "\<exists>e. offline settings_request = Inl e"
    by (simp add: offline_def)
  show ?thesis
    using resolveSettings_overrides [of "JStr ''http://a.example/x''" "JStr ''tok''" offline]
      resolveSettings_overrides [of JNull "JStr ''tok''" "endpoint settings_response"]
      resolveSettings_overrides [of JNull JNull "endpoint settings_response"]
      resolveSettings_overrides [of "JStr ''http://a.example/x''" JNull offline]
      up down
    by (simp add: js_or_def empty_settings_def)
qed

section \<open>Sending\<close>

text \<open>
  C3: when the resolved URL is a string that is empty or consists of white space only,
  \<open>sendWebhook\<close> fails with ConfigurationError whatever the shot, the notes and the
  token are, and issues no request beyond those of resolving the settings. The test comes
  before the payload is built: a \<open>null\<close> shot gives ConfigurationError too, which is not
  InvalidInput.
\<close>

theorem sendWebhook_unconfigured:
  assumes "resolveSettings fetch (dflt JNull webhookUrl) (dflt JNull authToken) =
             (reqs, JStr u, token)"
    and "trim u = []"
  shows "sendWebhook fetch shot notes webhookUrl authToken = (reqs, Inl ConfigurationError) \<and>
         sendWebhook fetch JNull notes webhookUrl authToken = (reqs, Inl ConfigurationError) \<and>
         ConfigurationError \<noteq> InvalidInput"
  using assms
  by (simp add: sendWebhook_resolved [OF assms(1)] ConfigurationError_def InvalidInput_def)

text \<open>
  C3 run: a URL of three spaces and a \<open>null\<close> shot, which alone would be InvalidInput.
\<close>

theorem sendWebhook_unconfigured_witness:
  "resolveSettings offline (dflt JNull (JStr ''   '')) (dflt JNull (JStr ''tok'')) =
     ([], JStr ''   '', JStr ''tok'') \<and>
   trim ''   '' = [] \<and>
   sendWebhook offline JNull JUndefined (JStr ''   '') (JStr ''tok'') =
     ([], Inl ConfigurationError) \<and>
   formatWebhookPayload JNull JUndefined = Inl InvalidInput"
proof -
  have r: "resolveSettings offline (dflt JNull (JStr ''   '')) (dflt JNull (JStr ''tok'')) =
     ([], JStr ''   '', JStr ''tok'')"
    by (simp add: resolveSettings_def dflt_def)
  have t: "trim ''   '' = []"
    by (simp add: trim_def is_space_def)
  show ?thesis
    using sendWebhook_unconfigured [OF r t, of JNull JUndefined] r t
    by (simp add: formatWebhookPayload_def)
qed

text \<open>
  C6: \<open>sendWebhook\<close> does not look at the shape of the URL. Whenever the resolved URL is
  a string that is not blank, the shot is present and the token is a string or falsy, the
  POST is issued to that very string and the result is what the catch makes of the
  outcome of that request. Nothing here depends on \<open>validateWebhookUrl\<close>.
\<close>

theorem sendWebhook_skips_url_validation:
  assumes "resolveSettings fetch (dflt JNull webhookUrl) (dflt JNull authToken) =
             (reqs, JStr u, token)"
    and "trim u \<noteq> []"
    and "truthy shot"
    and "(\<exists>t. token = JStr t) \<or> \<not> truthy token"
  shows "\<exists>req. fst (sendWebhook fetch shot notes webhookUrl authToken) = reqs @ [req] \<and>
           req_url req = u \<and> req_method req = ''POST'' \<and>
           snd (sendWebhook fetch shot notes webhookUrl authToken) =
             catchFetchError
               (case fetch req of
                  Inl rejected \<Rightarrow> Inl rejected
                | Inr response \<Rightarrow> handleResponse response)"
proof -
  from assms(3) obtain payload where
    p: "formatWebhookPayload shot (dflt JNull notes) = Inr payload"
    by (auto simp add: formatWebhookPayload_def Let_def)
  from assms(4) obtain headers where h: "buildHeaders token = Inr headers"
    using buildHeaders_total by blast
  have c: "checkConfigured (JStr u) = Inr u"
    using assms(2) by (rule checkConfigured_string)
  show ?thesis
    by (simp add: sendWebhook_resolved [OF assms(1)] p h c webhook_request_def
        del: checkConfigured.simps)
qed

text \<open>
  C6 run: two URLs that \<open>validateWebhookUrl\<close> rejects are requested all the same, one
  with the network down, one answered with status 200.
\<close>

theorem sendWebhook_skips_url_validation_witness:
  "validateWebhookUrl mock_URL (JStr ''not a url'') = Inr False \<and>
   validateWebhookUrl mock_URL (JStr ''ftp://x'') = Inr False \<and>
   (\<exists>req. fst (sendWebhook offline shot7 JNull (JStr ''not a url'') (JStr ''tok'')) = [] @ [req] \<and>
      req_url req = ''not a url'' \<and> req_method req = ''POST'' \<and>
      snd (sendWebhook offline shot7 JNull (JStr ''not a url'') (JStr ''tok'')) =
        Inl NetworkError) \<and>
   (\<exists>req. fst (sendWebhook (endpoint (reply 200 None [] (Inl SyntaxError)))
              shot7 JNull (JStr ''ftp://x'') JNull) = [settings_request] @ [req] \<and>
      req_url req = ''ftp://x'' \<and> req_method req = ''POST'' \<and>
      snd (sendWebhook (endpoint (reply 200 None [] (Inl SyntaxError)))
              shot7 JNull (JStr ''ftp://x'') JNull) =
        Inr (JObj [(''success'', JBool True), (''status'', JNum 200)]))"
proof -
  have r1: "resolveSettings offline (dflt JNull (JStr ''not a url'')) (dflt JNull (JStr ''tok'')) =
              ([], JStr ''not a url'', JStr ''tok'')"
    by (simp add: resolveSettings_def dflt_def)
  have t1: "trim ''not a url'' \<noteq> []"
    by (simp add: trim_def is_space_def)
  have s: "truthy shot7"
    by (simp add: shot7_def)
  have k1: "(\<exists>t. JStr ''tok'' = JStr t) \<or> \<not> truthy (JStr ''tok'')"
    by simp
  have r2: "resolveSettings (endpoint (reply 200 None [] (Inl SyntaxError)))
              (dflt JNull (JStr ''ftp://x'')) (dflt JNull JNull) =
              ([settings_request], JStr ''ftp://x'', JStr [])"
    by (simp add: resolveSettings_def getWebhookSettings_def dflt_def endpoint_def reply_def
        js_or_def empty_settings_def)
  have t2: "trim ''ftp://x'' \<noteq> []"
    by (simp add: trim_def is_space_def)
  have k2: "(\<exists>t. JStr [] = JStr t) \<or> \<not> truthy (JStr [])"
    by simp
  have v: "validateWebhookUrl mock_URL (JStr ''not a url'') = Inr False"
    "validateWebhookUrl mock_URL (JStr ''ftp://x'') = Inr False"
    by (simp_all add: mock_URL_def)
  show ?thesis
    using sendWebhook_skips_url_validation [OF r1 t1 s k1, of JNull]
      sendWebhook_skips_url_validation [OF r2 t2 s k2, of JNull] v
    by (auto simp add: offline_def TypeError_def catchFetchError_def endpoint_def reply_def
        handleResponse_def ok_def is_json_def success_result_def)
qed

text \<open>
  C8: when a send issues its POST, the headers of that request hold
  \<open>Content-Type: application/json\<close>, \<open>Accept: application/json\<close> and the client
  identifier \<open>User-Agent: GaggiMate-WebUI/1.0\<close>, and they hold an \<open>Authorization\<close>
  header exactly when the resolved token is a string that is not blank after trimming.
  A token of three spaces gives no \<open>Authorization\<close> header.
\<close>

theorem sendWebhook_headers:
  assumes "resolveSettings fetch (dflt JNull webhookUrl) (dflt JNull authToken) =
             (reqs, url, token)"
    and "fst (sendWebhook fetch shot notes webhookUrl authToken) = reqs' @ [req]"
    and "req_method req = ''POST''"
  shows "map_of (req_headers req) ''Content-Type'' = Some ''application/json'' \<and>
         map_of (req_headers req) ''Accept'' = Some ''application/json'' \<and>
         map_of (req_headers req) ''User-Agent'' = Some ''GaggiMate-WebUI/1.0'' \<and>
         ((\<exists>v. map_of (req_headers req) ''Authorization'' = Some v) \<longleftrightarrow>
            (\<exists>t. token = JStr t \<and> trim t \<noteq> [])) \<and>
         (token = JStr ''   '' \<longrightarrow> map_of (req_headers req) ''Authorization'' = None)"
proof -
  from sendWebhook_sent [OF assms] obtain u headers payload where
    h: "buildHeaders token = Inr headers" and r: "req = webhook_request u headers payload"
    by blast
  have rh: "req_headers req = headers"
    by (simp add: r webhook_request_def)
  have blank: "trim ''   '' = []"
    by (simp add: trim_def is_space_def)
  note l = buildHeaders_lookup [OF h, unfolded rh [symmetric]]
  have iff: "(\<exists>v. map_of (req_headers req) ''Authorization'' = Some v) \<longleftrightarrow>
            (\<exists>t. token = JStr t \<and> trim t \<noteq> [])"
    using l by (cases token) auto
  have none: "token = JStr ''   '' \<longrightarrow> map_of (req_headers req) ''Authorization'' = None"
    using l blank by auto
  from l iff none show ?thesis by blast
qed

text \<open>
  C8 run: a token of three spaces, and the token \<open>tok\<close>.
\<close>

theorem sendWebhook_headers_witness:
  "fst (sendWebhook offline shot7 JNull (JStr hook) (JStr ''   '')) =
     [] @ [request7 hook []] \<and>
   map_of (req_headers (request7 hook [])) ''Content-Type'' = Some ''application/json'' \<and>
   map_of (req_headers (request7 hook [])) ''Accept'' = Some ''application/json'' \<and>
   map_of (req_headers (request7 hook [])) ''User-Agent'' = Some ''GaggiMate-WebUI/1.0'' \<and>
   map_of (req_headers (request7 hook [])) ''Authorization'' = None \<and>
   fst (sendWebhook offline shot7 JNull (JStr hook) (JStr ''tok'')) =
     [] @ [request7 hook [(''Authorization'', ''Bearer tok'')]] \<and>
   (\<exists>v. map_of (req_headers (request7 hook [(''Authorization'', ''Bearer tok'')]))
          ''Authorization'' = Some v)"
proof -
  have blank: "trim ''   '' = []"
    by (simp add: trim_def is_space_def)
  have r1: "resolveSettings offline (dflt JNull (JStr hook)) (dflt JNull (JStr ''   '')) =
              ([], JStr hook, JStr ''   '')"
    by (simp add: resolveSettings_def dflt_def hook_def)
  have s1: "fst (sendWebhook offline shot7 JNull (JStr hook) (JStr ''   '')) =
     [] @ [request7 hook []]"
    by (simp add: sendWebhook_resolved [OF r1] formatWebhookPayload_shot7 dflt_def
      request7_def checkConfigured_string [OF trim_hook] buildHeaders_blank [OF blank]
      del: checkConfigured.simps buildHeaders.simps)
  have s2: "fst (sendWebhook offline shot7 JNull (JStr hook) (JStr ''tok'')) =
     [] @ [request7 hook [(''Authorization'', ''Bearer tok'')]]"
    by (simp add: sendWebhook_shot7)
  show ?thesis
    using sendWebhook_headers [OF r1 s1 request7_post]
      sendWebhook_headers [OF resolve_both s2 request7_post] s1 s2 trim_tok
    by simp
qed

text \<open>
  C10: when the resolved token is a string that is not blank after trimming, the
  \<open>Authorization\<close> header of the POST is \<open>Bearer\<close>, a space, and the token as it is,
  untrimmed.
\<close>

theorem sendWebhook_bearer_verbatim:
  assumes "resolveSettings fetch (dflt JNull webhookUrl) (dflt JNull authToken) =
             (reqs, url, JStr t)"
    and "trim t \<noteq> []"
    and "fst (sendWebhook fetch shot notes webhookUrl authToken) = reqs' @ [req]"
    and "req_method req = ''POST''"
  shows "map_of (req_headers req) ''Authorization'' = Some (''Bearer '' @ t)"
proof -
  from sendWebhook_sent [OF assms(1) assms(3) assms(4)] obtain u headers payload where
    h: "buildHeaders (JStr t) = Inr headers" and r: "req = webhook_request u headers payload"
    by blast
  have rh: "req_headers req = headers"
    by (simp add: r webhook_request_def)
  from buildHeaders_lookup [OF h] assms(2) show ?thesis
    unfolding rh by simp
qed

text \<open>
  C10 run: the token \<open>t\<close> with a space on each side keeps both spaces in the header.
\<close>

theorem sendWebhook_bearer_verbatim_witness:
  "trim '' t '' = ''t'' \<and>
   fst (sendWebhook offline shot7 JNull (JStr hook) (JStr '' t '')) =
     [] @ [request7 hook [(''Authorization'', ''Bearer  t '')]] \<and>
   map_of (req_headers (request7 hook [(''Authorization'', ''Bearer  t '')])) ''Authorization'' =
     Some ''Bearer  t ''"
proof -
  have t: "trim '' t '' = ''t''"
    by (simp add: trim_def is_space_def)
  then have t': "trim '' t '' \<noteq> []"
    by simp
  have r: "resolveSettings offline (dflt JNull (JStr hook)) (dflt JNull (JStr '' t '')) =
              ([], JStr hook, JStr '' t '')"
    by (simp add: resolveSettings_def dflt_def hook_def)
  have s: "fst (sendWebhook offline shot7 JNull (JStr hook) (JStr '' t '')) =
     [] @ [request7 hook [(''Authorization'', ''Bearer  t '')]]"
    using buildHeaders_string [OF t']
    by (simp add: sendWebhook_resolved [OF r] formatWebhookPayload_shot7 dflt_def
      request7_def checkConfigured_string [OF trim_hook]
      del: checkConfigured.simps buildHeaders.simps)
  show ?thesis
    using sendWebhook_bearer_verbatim [OF r t' s request7_post] s t by simp
qed

section \<open>Classifying the outcome\<close>



text \<open>
  C9: when the POST of a send is rejected with a TypeError, which is how \<open>fetch\<close>
  reports that no response arrived, the send fails with NetworkError. When a response
  arrived with a status outside 200 to 299 and a readable body, the send fails with
  AuthenticationError, ValidationError or HttpError, and none of these is NetworkError.
\<close>

theorem sendWebhook_network_error:
  assumes "fst (sendWebhook fetch shot notes webhookUrl authToken) = reqs @ [req]"
    and "req_method req = ''POST''"
  shows "(\<forall>e. fetch req = Inl e \<and> err_name e = ''TypeError'' \<longrightarrow>
            snd (sendWebhook fetch shot notes webhookUrl authToken) = Inl NetworkError) \<and>
         (\<forall>response body.
            fetch req = Inr response \<and> \<not> ok response \<and> resp_text response = Inr body \<longrightarrow>
            snd (sendWebhook fetch shot notes webhookUrl authToken) \<in>
              {Inl AuthenticationError, Inl ValidationError,
               Inl (HttpError (resp_status response) body)} \<and>
            snd (sendWebhook fetch shot notes webhookUrl authToken) \<noteq> Inl NetworkError) \<and>
         (\<forall>response. fetch req = Inr response \<and> ok response \<and>
            \<not> is_json (resp_content_type response) \<longrightarrow>
            snd (sendWebhook fetch shot notes webhookUrl authToken) \<noteq> Inl NetworkError) \<and>
         NetworkError = JsError ''Error'' ''Network error: Unable to connect to webhook URL''"
proof -
  obtain rs url token where
    res: "resolveSettings fetch (dflt JNull webhookUrl) (dflt JNull authToken) = (rs, url, token)"
    by (cases "resolveSettings fetch (dflt JNull webhookUrl) (dflt JNull authToken)") auto
  from sendWebhook_sent [OF res assms]
  have out: "snd (sendWebhook fetch shot notes webhookUrl authToken) =
               catchFetchError
                 (case fetch req of
                    Inl rejected \<Rightarrow> Inl rejected
                  | Inr response \<Rightarrow> handleResponse response)"
    by blast
  have a: "snd (sendWebhook fetch shot notes webhookUrl authToken) = Inl NetworkError"
    if "fetch req = Inl e" "err_name e = ''TypeError''" for e
    using that by (simp add: out catchFetchError_named)
  have b: "snd (sendWebhook fetch shot notes webhookUrl authToken) \<in>
              {Inl AuthenticationError, Inl ValidationError,
               Inl (HttpError (resp_status response) body)} \<and>
            snd (sendWebhook fetch shot notes webhookUrl authToken) \<noteq> Inl NetworkError"
    if "fetch req = Inr response" "\<not> ok response" "resp_text response = Inr body"
    for response body
    using that
    by (simp add: out handleResponse_not_ok [of response body] catchFetchError_Error
        error_names NetworkError_distinct)
  have c: "snd (sendWebhook fetch shot notes webhookUrl authToken) \<noteq> Inl NetworkError"
    if "fetch req = Inr response" "ok response" "\<not> is_json (resp_content_type response)"
    for response
    using that by (simp add: out handleResponse_ok catchFetchError_Inr)
  have d: "NetworkError = JsError ''Error'' ''Network error: Unable to connect to webhook URL''"
    by (simp add: NetworkError_def)
  from a b c d show ?thesis by blast
qed

text \<open>
  C9 run: the network down, then an endpoint answering 500, then one answering 200.
\<close>

theorem sendWebhook_network_error_witness:
  "snd (sendWebhook offline shot7 JNull (JStr hook) (JStr ''tok'')) = Inl NetworkError \<and>
   snd (sendWebhook (endpoint (reply 500 None ''boom'' (Inl SyntaxError)))
          shot7 JNull (JStr hook) (JStr ''tok'')) \<noteq> Inl NetworkError \<and>
   snd (sendWebhook (endpoint (reply 200 None ''fine'' (Inl SyntaxError)))
          shot7 JNull (JStr hook) (JStr ''tok'')) \<noteq> Inl NetworkError"
proof -
  have tr: "fst (sendWebhook f shot7 JNull (JStr hook) (JStr ''tok'')) =
              [] @ [request7 hook [(''Authorization'', ''Bearer tok'')]]" for f
    by (simp add: sendWebhook_shot7)
  have off: "offline (request7 hook [(''Authorization'', ''Bearer tok'')]) =
               Inl (TypeError ''Failed to fetch'') \<and>
             err_name (TypeError ''Failed to fetch'') = ''TypeError''"
    by (simp add: offline_def TypeError_def)
  have fe: "endpoint r (request7 hook [(''Authorization'', ''Bearer tok'')]) = Inr r" for r
    by (simp add: endpoint_def)
  have 1: "snd (sendWebhook offline shot7 JNull (JStr hook) (JStr ''tok'')) = Inl NetworkError"
    using sendWebhook_network_error [OF tr request7_post, of offline] off by blast
  have 2: "snd (sendWebhook (endpoint (reply 500 None ''boom'' (Inl SyntaxError)))
          shot7 JNull (JStr hook) (JStr ''tok'')) \<noteq> Inl NetworkError"
    using sendWebhook_network_error [OF tr request7_post,
        of "endpoint (reply 500 None ''boom'' (Inl SyntaxError))"]
      fe [of "reply 500 None ''boom'' (Inl SyntaxError)"]
    by (simp add: reply_def ok_def)
  have 3: "snd (sendWebhook (endpoint (reply 200 None ''fine'' (Inl SyntaxError)))
          shot7 JNull (JStr hook) (JStr ''tok'')) \<noteq> Inl NetworkError"
    using sendWebhook_network_error [OF tr request7_post,
        of "endpoint (reply 200 None ''fine'' (Inl SyntaxError))"]
      fe [of "reply 200 None ''fine'' (Inl SyntaxError)"]
    by (simp add: reply_def ok_def is_json_def)
  from 1 2 3 show ?thesis by blast
qed

section \<open>Validating the URL\<close>

text \<open>
  C7: on a string, \<open>validateWebhookUrl\<close> always returns a boolean. It is \<open>false\<close> when
  the string is empty or blank and when the \<open>URL\<close> constructor throws; it is \<open>true\<close>
  exactly when the string is not blank and parses to a URL whose protocol is \<open>http:\<close> or
  \<open>https:\<close>. The empty string and three spaces give \<open>false\<close> under every parser;
  \<open>ftp://x\<close> gives \<open>false\<close> and \<open>https://example.com/hook\<close> gives \<open>true\<close> under a
  parser that returns their protocols \<open>ftp:\<close> and \<open>https:\<close>.
\<close>

theorem validateWebhookUrl_spec:
  "(trim u = [] \<longrightarrow> validateWebhookUrl URL (JStr u) = Inr False) \<and>
   ((\<exists>e. URL u = Inl e) \<longrightarrow> validateWebhookUrl URL (JStr u) = Inr False) \<and>
   (validateWebhookUrl URL (JStr u) = Inr True \<longleftrightarrow>
      trim u \<noteq> [] \<and>
      (\<exists>parsed. URL u = Inr parsed \<and>
         (protocol parsed = ''http:'' \<or> protocol parsed = ''https:''))) \<and>
   (\<exists>b. validateWebhookUrl URL (JStr u) = Inr b) \<and>
   validateWebhookUrl URL (JStr '''') = Inr False \<and>
   validateWebhookUrl URL (JStr ''   '') = Inr False \<and>
   (\<forall>parsed. URL ''ftp://x'' = Inr parsed \<and> protocol parsed = ''ftp:'' \<longrightarrow>
      validateWebhookUrl URL (JStr ''ftp://x'') = Inr False) \<and>
   (\<forall>parsed. URL ''https://example.com/hook'' = Inr parsed \<and> protocol parsed = ''https:'' \<longrightarrow>
      validateWebhookUrl URL (JStr ''https://example.com/hook'') = Inr True)"
proof -
  have blank: "trim ''   '' = []"
    by (simp add: trim_def is_space_def)
  have full: "trim ''https://example.com/hook'' \<noteq> []"
    by (simp add: trim_def is_space_def)
  have 1: "trim u = [] \<longrightarrow> validateWebhookUrl URL (JStr u) = Inr False"
    by simp
  have 2: "(\<exists>e. URL u = Inl e) \<longrightarrow> validateWebhookUrl URL (JStr u) = Inr False"
    by auto
  have 3: "validateWebhookUrl URL (JStr u) = Inr True \<longleftrightarrow>
      trim u \<noteq> [] \<and>
      (\<exists>parsed. URL u = Inr parsed \<and>
         (protocol parsed = ''http:'' \<or> protocol parsed = ''https:''))"
    by (auto simp add: trim_Nil split: sum.splits)
  have 4: "\<exists>b. validateWebhookUrl URL (JStr u) = Inr b"
    by (auto split: sum.splits)
  have 5: "validateWebhookUrl URL (JStr '''') = Inr False"
    by simp
  have 6: "validateWebhookUrl URL (JStr ''   '') = Inr False"
    using blank by simp
  have 7: "\<forall>parsed. URL ''ftp://x'' = Inr parsed \<and> protocol parsed = ''ftp:'' \<longrightarrow>
      validateWebhookUrl URL (JStr ''ftp://x'') = Inr False"
    by auto
  have 8: "\<forall>parsed. URL ''https://example.com/hook'' = Inr parsed \<and> protocol parsed = ''https:'' \<longrightarrow>
      validateWebhookUrl URL (JStr ''https://example.com/hook'') = Inr True"
    using full by auto
  from 1 2 3 4 5 6 7 8 show ?thesis by blast
qed

text \<open>
  C7 run with the stand-in parser, on the four strings and on one that does not parse.
\<close>

theorem validateWebhookUrl_spec_witness:
  "validateWebhookUrl mock_URL (JStr '''') = Inr False \<and>
   validateWebhookUrl mock_URL (JStr ''   '') = Inr False \<and>
   mock_URL ''ftp://x'' = Inr \<lparr>protocol = ''ftp:''\<rparr> \<and>
   validateWebhookUrl mock_URL (JStr ''ftp://x'') = Inr False \<and>
   mock_URL ''https://example.com/hook'' = Inr \<lparr>protocol = ''https:''\<rparr> \<and>
   validateWebhookUrl mock_URL (JStr ''https://example.com/hook'') = Inr True \<and>
   (\<exists>e. mock_URL ''no scheme'' = Inl e) \<and>
   validateWebhookUrl mock_URL (JStr ''no scheme'') = Inr False"
proof -
  have a: "mock_URL ''ftp://x'' = Inr \<lparr>protocol = ''ftp:''\<rparr>"
    and b: "mock_URL ''https://example.com/hook'' = Inr \<lparr>protocol = ''https:''\<rparr>"
    and c: "\<exists>e. mock_URL ''no scheme'' = Inl e"
    by (simp_all add: mock_URL_def)
  show ?thesis
    using validateWebhookUrl_spec [of "''   ''" mock_URL]
      validateWebhookUrl_spec [of "''no scheme''" mock_URL] a b c
    by (simp del: validateWebhookUrl.simps)
qed

end
